theory Spec2Isabelle
  imports Main
begin

section \<open>JavaScript values\<close>

text \<open>
  The launch arguments, the request envelopes and every thrown value are untyped
  (\<open>any\<close>) in \<open>nodeDebugWrapper.ts\<close>, so they are values of one datatype. Numbers are
  the integers (exact in a double up to \<open>2^53\<close>) and \<open>NaN\<close>; the only objects are
  arrays and \<open>Error\<close> objects (a name and a message). A \<open>char\<close> stands for the code unit
  of the same number.
\<close>

datatype jsval =
    JUndefined
  | JNull
  | JBool bool
  | JNum int
  | JNaN
  | JStr string
  | JArr "jsval list"
  | JError string string

text \<open>\<open>isNullOrUndefined\<close>: \<open>typeof value === "undefined" || value === null\<close>.\<close>

fun isNullOrUndefined :: "jsval \<Rightarrow> bool" where
  "isNullOrUndefined JUndefined = True"
| "isNullOrUndefined JNull = True"
| "isNullOrUndefined _ = False"

text \<open>Truthiness, as \<open>||\<close> and \<open>if\<close> test it: the falsy values are \<open>undefined\<close>,
  \<open>null\<close>, \<open>false\<close>, \<open>0\<close>, \<open>NaN\<close> and the empty string.\<close>

fun truthy :: "jsval \<Rightarrow> bool" where
  "truthy JUndefined = False"
| "truthy JNull = False"
| "truthy (JBool b) = b"
| "truthy (JNum n) = (n \<noteq> 0)"
| "truthy JNaN = False"
| "truthy (JStr s) = (s \<noteq> [])"
| "truthy (JArr xs) = True"
| "truthy (JError n m) = True"

text \<open>\<open>a || b\<close>.\<close>

definition js_or :: "jsval \<Rightarrow> jsval \<Rightarrow> jsval" where
  "js_or a b = (if truthy a then a else b)"

subsection \<open>Decimal numerals\<close>

definition digit_char :: "nat \<Rightarrow> char" where
  "digit_char d = ''0123456789'' ! d"

function string_of_nat :: "nat \<Rightarrow> string" where
  "string_of_nat n =
     (if n < 10 then [digit_char n] else string_of_nat (n div 10) @ [digit_char (n mod 10)])"
  by pat_completeness auto
termination
  by (relation "measure id") auto

declare string_of_nat.simps [simp del]

text \<open>\<open>Number.prototype.toString()\<close> on an integer.\<close>

definition number_toString :: "int \<Rightarrow> string" where
  "number_toString n =
     (if n < 0 then CHR ''-'' # string_of_nat (nat (- n)) else string_of_nat (nat n))"

subsection \<open>String conversion and \<open>Array.prototype.join\<close>\<close>

text \<open>\<open>join\<close> puts the separator between the elements, not after the last one.\<close>

fun join_strings :: "string \<Rightarrow> string list \<Rightarrow> string" where
  "join_strings sep [] = []"
| "join_strings sep [x] = x"
| "join_strings sep (x # y # ys) = x @ sep @ join_strings sep (y # ys)"

text \<open>\<open>Error.prototype.toString\<close>: the name, then \<open>": "\<close> and the message, when both
  are there.\<close>

definition error_toString :: "string \<Rightarrow> string \<Rightarrow> string" where
  "error_toString n m =
     (if m = [] then n else if n = [] then m else n @ '': '' @ m)"

text \<open>The abstract operation \<open>ToString\<close>. An array is its elements joined by a comma,
  where \<open>join\<close> writes \<open>undefined\<close> and \<open>null\<close> elements as the empty string.\<close>

fun ToString :: "jsval \<Rightarrow> string" where
  "ToString JUndefined = ''undefined''"
| "ToString JNull = ''null''"
| "ToString (JBool b) = (if b then ''true'' else ''false'')"
| "ToString (JNum n) = number_toString n"
| "ToString JNaN = ''NaN''"
| "ToString (JStr s) = s"
| "ToString (JArr xs) =
     join_strings '','' (map (\<lambda>x. if isNullOrUndefined x then [] else ToString x) xs)"
| "ToString (JError n m) = error_toString n m"

definition Array_join :: "jsval list \<Rightarrow> string \<Rightarrow> string" where
  "Array_join xs sep =
     join_strings sep (map (\<lambda>x. if isNullOrUndefined x then [] else ToString x) xs)"

subsection \<open>\<open>parseInt(string, 10)\<close>\<close>

definition digit_of :: "char \<Rightarrow> nat option" where
  "digit_of c = map_of (zip ''0123456789'' [0, 1, 2, 3, 4, 5, 6, 7, 8, 9]) c"

text \<open>White space that \<open>parseInt\<close> skips: TAB, LF, VT, FF, CR, space and the
  no-break space.\<close>

definition is_whitespace :: "char \<Rightarrow> bool" where
  "is_whitespace c = (c \<in> set [CHR 0x09, CHR 0x0A, CHR 0x0B, CHR 0x0C, CHR 0x0D, CHR 0x20, CHR 0xA0])"

text \<open>The value of the longest prefix of decimal digits, read from the left with the
  value so far; \<open>None\<close> when the prefix is empty.\<close>

fun digits_value :: "nat option \<Rightarrow> string \<Rightarrow> nat option" where
  "digits_value acc [] = acc"
| "digits_value acc (c # cs) =
     (case digit_of c of
        None \<Rightarrow> acc
      | Some d \<Rightarrow> digits_value (Some ((case acc of None \<Rightarrow> 0 | Some a \<Rightarrow> a) * 10 + d)) cs)"

text \<open>\<open>parseInt(s, 10)\<close> on a string: skip leading white space, read one optional sign,
  then the longest prefix of digits. \<open>None\<close> is \<open>NaN\<close>.\<close>

definition parseInt10_string :: "string \<Rightarrow> int option" where
  "parseInt10_string s =
     (let t = dropWhile is_whitespace s;
          neg = (t \<noteq> [] \<and> hd t = CHR ''-'');
          u = (if t \<noteq> [] \<and> (hd t = CHR ''+'' \<or> hd t = CHR ''-'') then tl t else t)
      in case digits_value None u of
           None \<Rightarrow> None
         | Some v \<Rightarrow> Some (if neg then - int v else int v))"

text \<open>\<open>parseInt(value, 10)\<close> converts its argument to a string first; the result as a
  value is the number or \<open>NaN\<close>.\<close>

definition parseInt10 :: "jsval \<Rightarrow> jsval" where
  "parseInt10 v = (case parseInt10_string (ToString v) of None \<Rightarrow> JNaN | Some n \<Rightarrow> JNum n)"

subsection \<open>\<open>path.resolve\<close> (POSIX)\<close>

text \<open>\<open>String.prototype.split('/')\<close>.\<close>

fun split_slash :: "string \<Rightarrow> string \<Rightarrow> string list" where
  "split_slash cur [] = [rev cur]"
| "split_slash cur (c # cs) =
     (if c = CHR ''/'' then rev cur # split_slash [] cs else split_slash (c # cur) cs)"

text \<open>\<open>normalizeArray(parts, allowAboveRoot)\<close>: empty parts and \<open>.\<close> are dropped, \<open>..\<close>
  removes the last kept part (the result \<open>res\<close> is held reversed).\<close>

fun normalizeArray :: "bool \<Rightarrow> string list \<Rightarrow> string list \<Rightarrow> string list" where
  "normalizeArray allowAboveRoot res [] = rev res"
| "normalizeArray allowAboveRoot res (p # parts) =
     (if p = [] \<or> p = ''.'' then normalizeArray allowAboveRoot res parts
      else if p = ''..'' then
        (if res \<noteq> [] \<and> hd res \<noteq> ''..'' then normalizeArray allowAboveRoot (tl res) parts
         else if allowAboveRoot then normalizeArray allowAboveRoot (''..'' # res) parts
         else normalizeArray allowAboveRoot res parts)
      else normalizeArray allowAboveRoot (p # res) parts)"

text \<open>The loop of \<open>path.resolve\<close>: the arguments from the right, then the working
  directory, until the path built so far is absolute. An argument that is not a string
  raises a \<open>TypeError\<close>; an empty one is skipped.\<close>

fun resolve_loop :: "string \<Rightarrow> string \<Rightarrow> bool \<Rightarrow> jsval list \<Rightarrow> jsval + (string \<times> bool)" where
  "resolve_loop cwd resolvedPath resolvedAbsolute [] =
     (if resolvedAbsolute \<or> cwd = [] then Inr (resolvedPath, resolvedAbsolute)
      else Inr (cwd @ ''/'' @ resolvedPath, hd cwd = CHR ''/''))"
| "resolve_loop cwd resolvedPath resolvedAbsolute (a # as) =
     (if resolvedAbsolute then Inr (resolvedPath, resolvedAbsolute)
      else case a of
        JStr p \<Rightarrow>
          (if p = [] then resolve_loop cwd resolvedPath resolvedAbsolute as
           else resolve_loop cwd (p @ ''/'' @ resolvedPath) (hd p = CHR ''/'') as)
      | _ \<Rightarrow> Inl (JError ''TypeError'' ''Arguments to path.resolve must be strings''))"

definition path_resolve :: "string \<Rightarrow> jsval list \<Rightarrow> jsval + string" where
  "path_resolve cwd arguments =
     (case resolve_loop cwd [] False (rev arguments) of
        Inl e \<Rightarrow> Inl e
      | Inr (resolvedPath, resolvedAbsolute) \<Rightarrow>
          (let r = (if resolvedAbsolute then ''/'' else []) @
                   join_strings ''/'' (normalizeArray (\<not> resolvedAbsolute) [] (split_slash [] resolvedPath))
           in Inr (if r = [] then ''.'' else r)))"

section \<open>The debug session, the collaborators and the state\<close>

text \<open>The protocol events the wrapper sends: \<open>InitializedEvent()\<close> and
  \<open>OutputEvent(message, category)\<close>, the category optional.\<close>

datatype dap_event = InitializedEvent | OutputEvent string "string option"

text \<open>\<open>ILaunchArgs\<close>, as \<open>launchRequest\<close> reads and writes it. \<open>otherFields\<close> holds
  every further key of the launch configuration.\<close>

record launch_args =
  program :: jsval
  platform :: jsval
  internalDebuggerPort :: jsval
  iosRelativeProjectPath :: jsval
  target :: jsval
  logCatArguments :: jsval
  args :: jsval
  otherFields :: "(string \<times> jsval) list"

text \<open>The three caches of \<open>this._sourceMaps\<close>, each an object used as a dictionary.\<close>

record source_maps =
  allSourceMaps :: "(string \<times> jsval) list"
  generatedToSourceMaps :: "(string \<times> jsval) list"
  sourceToGeneratedMaps :: "(string \<times> jsval) list"

text \<open>The calls that leave the wrapper, in the order they are made. Sessions and the
  adapter's own (native) handlers are named by numbers. \<open>ReassignTelemetry\<close> is
  \<open>telemetryReporter.reassignTo\<close> with a new reporter for the application name, the
  version and the project root (its instrumentation key is a constant).\<close>

datatype effect =
    ReassignTelemetry string string string
  | CreateServer nat
  | Listen jsval
  | OnError
  | SendSimpleEvent string
  | SendEvent nat dap_event
  | CallLaunch nat nat jsval launch_args
  | CallDisconnect nat nat jsval jsval
  | AtProjectRootPath jsval
  | StopMonitoringLogcat
  | StderrWrite string
  | UncaughtException jsval

text \<open>How a call ends: it returns, or a value is thrown.\<close>

datatype completion = Normal | Throw jsval

text \<open>What \<open>server.listen(port)\<close> does: it throws at once (a port out of range), it
  binds, or the bind fails and an \<open>error\<close> event with an \<open>Error\<close> (name, message) is
  emitted on the server in a later turn of the event loop.\<close>

datatype listen_outcome = ListenThrows jsval | Listening | BindFails string string

text \<open>What stopping the log monitor does: \<open>RemoteExtension.atProjectRootPath\<close> throws,
  \<open>stopMonitoringLogcat()\<close> throws, or it returns a promise that is fulfilled, is rejected
  with a reason, or is never settled.\<close>

datatype aux_outcome =
    ConstructionThrows jsval
  | CallThrows jsval
  | PromiseResolves
  | PromiseRejects jsval
  | PromisePending

text \<open>The server made by \<open>http.createServer\<close>: the session its request listener has
  captured as \<open>this\<close>, the port it was told to listen on, whether an \<open>error\<close> listener is
  registered, and an \<open>error\<close> event not yet delivered.\<close>

record server =
  listenerThis :: nat
  listenPort :: "jsval option"
  errorListener :: bool
  pendingError :: "(string \<times> string) option"

text \<open>The mutable state: the wrapper's \<open>projectRootPath\<close> field (\<open>undefined\<close> until a
  launch), the \<open>_sourceMaps\<close> of each session (\<open>None\<close> when the session has none), the
  servers created so far, and the trace of outgoing calls.\<close>

record state =
  projectRootPath :: jsval
  sourceMaps :: "nat \<Rightarrow> source_maps option"
  servers :: "server list"
  trace :: "effect list"

text \<open>The world outside the source file: the working directory of the process, the
  constant \<open>IOSPlatform.DEFAULT_IOS_PROJECT_RELATIVE_PATH\<close> (declared outside this file),
  the outcome of \<open>listen\<close> for a port, the completion of each native handler, and the
  outcome of the log-monitor calls for a project root.\<close>

record env =
  cwd :: string
  DEFAULT_IOS_PROJECT_RELATIVE_PATH :: string
  listen :: "jsval \<Rightarrow> listen_outcome"
  nativeLaunch :: "nat \<Rightarrow> nat \<Rightarrow> jsval \<Rightarrow> launch_args \<Rightarrow> completion"
  nativeDisconnect :: "nat \<Rightarrow> nat \<Rightarrow> jsval \<Rightarrow> jsval \<Rightarrow> completion"
  remoteExtension :: "jsval \<Rightarrow> aux_outcome"

text \<open>The constructor's \<open>appName\<close> and \<open>version\<close>.\<close>

record NodeDebugWrapper =
  appName :: string
  version :: string

definition log_effects :: "effect list \<Rightarrow> state \<Rightarrow> state" where
  "log_effects es st = st\<lparr>trace := trace st @ es\<rparr>"

type_synonym launch_handler = "nat \<Rightarrow> jsval \<Rightarrow> launch_args \<Rightarrow> state \<Rightarrow> completion \<times> launch_args \<times> state"
type_synonym disconnect_handler = "nat \<Rightarrow> jsval \<Rightarrow> jsval \<Rightarrow> state \<Rightarrow> completion \<times> state"

section \<open>The wrapped launch request\<close>

text \<open>\<open>parseLogCatArguments\<close>: an array is joined with a space, anything else is left
  as it is.\<close>

definition parseLogCatArguments :: "jsval \<Rightarrow> jsval" where
  "parseLogCatArguments userProvidedLogCatArguments =
     (case userProvidedLogCatArguments of
        JArr xs \<Rightarrow> JStr (Array_join xs '' '')
      | _ \<Rightarrow> userProvidedLogCatArguments)"

text \<open>\<open>parseInt(args.internalDebuggerPort, 10) || 9090\<close>.\<close>

definition debugServerListeningPort :: "launch_args \<Rightarrow> jsval" where
  "debugServerListeningPort a = js_or (parseInt10 (internalDebuggerPort a)) (JNum 9090)"

text \<open>The array written to \<open>args.args\<close>: the four fixed elements, and the log
  arguments when they are defined.\<close>

definition downstream_args :: "env \<Rightarrow> launch_args \<Rightarrow> jsval list" where
  "downstream_args e a =
     [ platform a,
       JStr (ToString (debugServerListeningPort a)),
       (if \<not> isNullOrUndefined (iosRelativeProjectPath a) then iosRelativeProjectPath a
        else JStr (DEFAULT_IOS_PROJECT_RELATIVE_PATH e)),
       js_or (target a) (JStr ''simulator'') ]
     @ (if \<not> isNullOrUndefined (logCatArguments a)
        then [parseLogCatArguments (logCatArguments a)] else [])"

text \<open>The private method \<open>attachRequest\<close>: \<open>launchRequest.call(debugSession, request,
  args)\<close>. Calling a captured handler that is \<open>undefined\<close> raises a \<open>TypeError\<close>.\<close>

definition attachRequest ::
  "launch_handler option \<Rightarrow> nat \<Rightarrow> jsval \<Rightarrow> launch_args \<Rightarrow> state \<Rightarrow> completion \<times> launch_args \<times> state" where
  "attachRequest launchRequest debugSession request a st =
     (case launchRequest of
        None \<Rightarrow> (Throw (JError ''TypeError'' ''Cannot read property 'call' of undefined''), a, st)
      | Some f \<Rightarrow> f debugSession request a st)"

text \<open>The function that \<open>customizeLaunchRequest\<close> stores in the prototype, with the
  \<open>originalRequest\<close> it has captured. \<open>this\<close> is the session the request came to.\<close>

definition wrappedLaunchRequest ::
  "env \<Rightarrow> NodeDebugWrapper \<Rightarrow> launch_handler option \<Rightarrow> launch_handler" where
  "wrappedLaunchRequest e w originalRequest this request a st =
     (case path_resolve (cwd e) [program a, JStr ''../..''] of
        Inl err \<Rightarrow> (Throw err, a, st)
      | Inr root \<Rightarrow>
          let st1 = log_effects [ReassignTelemetry (appName w) (version w) root, CreateServer this]
                      (st\<lparr>projectRootPath := JStr root\<rparr>);
              reinitializeServer =
                \<lparr>listenerThis = this, listenPort = None, errorListener = False, pendingError = None\<rparr>;
              port = debugServerListeningPort a
          in (case listen e port of
                ListenThrows err \<Rightarrow>
                  (Throw err, a, st1\<lparr>servers := servers st1 @ [reinitializeServer]\<rparr>)
              | outcome \<Rightarrow>
                  (let listening = reinitializeServer
                         \<lparr>listenPort := Some port,
                          pendingError := (case outcome of BindFails n m \<Rightarrow> Some (n, m) | _ \<Rightarrow> None)\<rparr>;
                       st2 = log_effects [Listen port, OnError]
                               (st1\<lparr>servers := servers st1 @ [listening\<lparr>errorListener := True\<rparr>]\<rparr>);
                       a' = a\<lparr>args := JArr (downstream_args e a)\<rparr>
                   in attachRequest originalRequest this request a' st2)))"

subsection \<open>The reinitialization server\<close>

record response =
  statusCode :: nat
  ended :: bool

text \<open>Flushing the cached source maps: each of the three caches becomes \<open>{}\<close>.\<close>

definition flush_source_maps :: "source_maps \<Rightarrow> source_maps" where
  "flush_source_maps sm =
     sm\<lparr>allSourceMaps := [], generatedToSourceMaps := [], sourceToGeneratedMaps := []\<rparr>"

text \<open>The request listener given to \<open>http.createServer\<close>, for a request with
  \<open>req.url = url\<close>. Its \<open>this\<close> is the session of the launch, an object, so the test
  \<open>if (this)\<close> succeeds; a session without \<open>_sourceMaps\<close> keeps none.\<close>

definition requestListener :: "server \<Rightarrow> string \<Rightarrow> state \<Rightarrow> response \<times> state" where
  "requestListener srv url st =
     (let this = listenerThis srv;
          res = \<lparr>statusCode = 404, ended = False\<rparr>
      in if url = ''/refreshBreakpoints'' then
           (res\<lparr>statusCode := 200, ended := True\<rparr>,
            log_effects [SendEvent this InitializedEvent]
              (st\<lparr>sourceMaps := (sourceMaps st)(this := map_option flush_source_maps (sourceMaps st this))\<rparr>))
         else (res\<lparr>ended := True\<rparr>, st))"

text \<open>The listener registered with \<open>reinitializeServer.on("error", ...)\<close>.\<close>

definition errorHandler :: "nat \<Rightarrow> string \<times> string \<Rightarrow> state \<Rightarrow> state" where
  "errorHandler this err st =
     log_effects
       [ SendSimpleEvent ''reinitializeServerError'',
         SendEvent this (OutputEvent (''Error in debug adapter server: '' @ error_toString (fst err) (snd err)) (Some ''stderr'')),
         SendEvent this (OutputEvent ''Breakpoints may not update. Consider restarting and specifying a different 'internalDebuggerPort' in launch.json'' None) ]
       st"

text \<open>A later turn of the event loop delivers a pending \<open>error\<close> event of a server: to
  its listener when it has one; an \<open>error\<close> event without a listener is thrown.\<close>

definition deliver_error :: "server \<Rightarrow> state \<Rightarrow> completion \<times> state" where
  "deliver_error srv st =
     (case pendingError srv of
        None \<Rightarrow> (Normal, st)
      | Some err \<Rightarrow>
          if errorListener srv then (Normal, errorHandler (listenerThis srv) err st)
          else (Throw (JError (fst err) (snd err)), st))"

section \<open>The wrapped disconnect request\<close>

text \<open>The property read \<open>value.message\<close>: a \<open>TypeError\<close> on \<open>undefined\<close> and \<open>null\<close>, the
  message of an \<open>Error\<close>, \<open>undefined\<close> on every other value.\<close>

fun get_message :: "jsval \<Rightarrow> jsval + jsval" where
  "get_message JUndefined = Inl (JError ''TypeError'' ''Cannot read property 'message' of undefined'')"
| "get_message JNull = Inl (JError ''TypeError'' ''Cannot read property 'message' of null'')"
| "get_message (JError n m) = Inr (JStr m)"
| "get_message _ = Inr JUndefined"

text \<open>The text \<open>${reason.message || reason}\<close> of both warnings.\<close>

definition message_or_value :: "jsval \<Rightarrow> jsval + string" where
  "message_or_value reason =
     (case get_message reason of
        Inl err \<Rightarrow> Inl err
      | Inr m \<Rightarrow> Inr (ToString (js_or m reason)))"

text \<open>\<open>originalRequest.call(this, response, args)\<close>.\<close>

definition call_original ::
  "disconnect_handler option \<Rightarrow> nat \<Rightarrow> jsval \<Rightarrow> jsval \<Rightarrow> state \<Rightarrow> completion \<times> state" where
  "call_original originalRequest this response a st =
     (case originalRequest of
        None \<Rightarrow> (Throw (JError ''TypeError'' ''Cannot read property 'call' of undefined''), st)
      | Some f \<Rightarrow> f this response a st)"

text \<open>The \<open>catch\<close> block: the warning is written, then the original request is called;
  whatever either of them throws leaves the wrapped request.\<close>

definition catch_block ::
  "disconnect_handler option \<Rightarrow> nat \<Rightarrow> jsval \<Rightarrow> jsval \<Rightarrow> jsval \<Rightarrow> state \<Rightarrow> completion \<times> state" where
  "catch_block originalRequest this response a exception st =
     (case message_or_value exception of
        Inl err \<Rightarrow> (Throw err, st)
      | Inr text \<Rightarrow>
          call_original originalRequest this response a
            (log_effects [StderrWrite (''WARNING: Couldn't stop monitoring logcat. Sync exception: '' @ text @ [CHR 0x0A])] st))"

text \<open>The rejection handler given to \<open>done\<close>: it writes the warning; what it throws
  itself is rethrown by \<open>done\<close> in a later turn, outside every handler.\<close>

definition done_rejected :: "jsval \<Rightarrow> state \<Rightarrow> state" where
  "done_rejected reason st =
     (case message_or_value reason of
        Inl err \<Rightarrow> log_effects [UncaughtException err] st
      | Inr text \<Rightarrow>
          log_effects [StderrWrite (''WARNING: Couldn't stop monitoring logcat: '' @ text @ [CHR 0x0A])] st)"

text \<open>The promise chain \<open>.finally(...).done(...)\<close> once the promise of
  \<open>stopMonitoringLogcat()\<close> is settled (\<open>None\<close>: fulfilled, \<open>Some reason\<close>: rejected). The
  callback of \<open>finally\<close> calls the original request; the chain is then rejected with what
  the callback threw, else with the reason it had.\<close>

definition settle ::
  "disconnect_handler option \<Rightarrow> nat \<Rightarrow> jsval \<Rightarrow> jsval \<Rightarrow> jsval option \<Rightarrow> state \<Rightarrow> state" where
  "settle originalRequest this response a rejection st =
     (case call_original originalRequest this response a st of
        (Throw err, st') \<Rightarrow> done_rejected err st'
      | (Normal, st') \<Rightarrow>
          (case rejection of None \<Rightarrow> st' | Some reason \<Rightarrow> done_rejected reason st'))"

text \<open>The function that \<open>customizeDisconnectRequest\<close> stores in the prototype. The
  callbacks of the promise run after the request has returned; their effects follow in the
  trace.\<close>

definition wrappedDisconnectRequest ::
  "env \<Rightarrow> NodeDebugWrapper \<Rightarrow> disconnect_handler option \<Rightarrow> disconnect_handler" where
  "wrappedDisconnectRequest e w originalRequest this response a st =
     (let root = projectRootPath st;
          st1 = log_effects [AtProjectRootPath root] st
      in case remoteExtension e root of
           ConstructionThrows exception \<Rightarrow> catch_block originalRequest this response a exception st1
         | CallThrows exception \<Rightarrow>
             catch_block originalRequest this response a exception (log_effects [StopMonitoringLogcat] st1)
         | PromiseResolves \<Rightarrow>
             (Normal, settle originalRequest this response a None (log_effects [StopMonitoringLogcat] st1))
         | PromiseRejects reason \<Rightarrow>
             (Normal, settle originalRequest this response a (Some reason) (log_effects [StopMonitoringLogcat] st1))
         | PromisePending \<Rightarrow> (Normal, log_effects [StopMonitoringLogcat] st1))"

section \<open>Installing the wrappers\<close>

text \<open>A function object in a slot of \<open>NodeDebugSession.prototype\<close>: a handler of the
  adapter itself, or a closure made by the wrapper around the handler it found in the slot
  (\<open>None\<close> when the slot was \<open>undefined\<close>). No closure is ever made for \<open>attachRequest\<close>.\<close>

datatype launch_fn = NativeLaunch nat | WrappedLaunch "launch_fn option"
datatype disconnect_fn = NativeDisconnect nat | WrappedDisconnect "disconnect_fn option"
datatype attach_fn = NativeAttach nat

record prototype =
  launchRequest :: "launch_fn option"
  attachRequest_slot :: "attach_fn option"
  disconnectRequest :: "disconnect_fn option"

text \<open>Reading \<open>this.nodeDebugSession.prototype\<close> raises a \<open>TypeError\<close> when the session
  class itself is \<open>undefined\<close> (\<open>None\<close>).\<close>

definition customizeLaunchRequest :: "prototype option \<Rightarrow> jsval + prototype" where
  "customizeLaunchRequest nodeDebugSession =
     (case nodeDebugSession of
        None \<Rightarrow> Inl (JError ''TypeError'' ''Cannot read property 'prototype' of undefined'')
      | Some p \<Rightarrow> Inr (p\<lparr>launchRequest := Some (WrappedLaunch (launchRequest p))\<rparr>))"

definition customizeDisconnectRequest :: "prototype option \<Rightarrow> jsval + prototype" where
  "customizeDisconnectRequest nodeDebugSession =
     (case nodeDebugSession of
        None \<Rightarrow> Inl (JError ''TypeError'' ''Cannot read property 'prototype' of undefined'')
      | Some p \<Rightarrow> Inr (p\<lparr>disconnectRequest := Some (WrappedDisconnect (disconnectRequest p))\<rparr>))"

text \<open>\<open>customizeNodeAdapterRequests\<close>: the launch and the disconnect request are
  customized; the call for the attach request is commented out in the source.\<close>

definition customizeNodeAdapterRequests :: "prototype option \<Rightarrow> jsval + prototype" where
  "customizeNodeAdapterRequests nodeDebugSession =
     (case customizeLaunchRequest nodeDebugSession of
        Inl err \<Rightarrow> Inl err
      | Inr p \<Rightarrow> customizeDisconnectRequest (Some p))"

text \<open>Calling a function object of the prototype: a native handler is recorded in the
  trace and completes as the environment says; a closure runs the wrapped request on the
  handler it has captured.\<close>

fun invoke_launch :: "env \<Rightarrow> NodeDebugWrapper \<Rightarrow> launch_fn \<Rightarrow> launch_handler" where
  "invoke_launch e w (NativeLaunch f) =
     (\<lambda>this request a st. (nativeLaunch e f this request a, a, log_effects [CallLaunch f this request a] st))"
| "invoke_launch e w (WrappedLaunch originalRequest) =
     wrappedLaunchRequest e w (map_option (invoke_launch e w) originalRequest)"

fun invoke_disconnect :: "env \<Rightarrow> NodeDebugWrapper \<Rightarrow> disconnect_fn \<Rightarrow> disconnect_handler" where
  "invoke_disconnect e w (NativeDisconnect f) =
     (\<lambda>this response a st. (nativeDisconnect e f this response a, log_effects [CallDisconnect f this response a] st))"
| "invoke_disconnect e w (WrappedDisconnect originalRequest) =
     wrappedDisconnectRequest e w (map_option (invoke_disconnect e w) originalRequest)"

section \<open>Notions used in the statements\<close>

text \<open>The state in which the wrapped launch request calls the original one: the project
  root is stored, the server of the session is registered with its port and its \<open>error\<close>
  listener, and the four calls made so far are in the trace.\<close>

definition launched :: "env \<Rightarrow> NodeDebugWrapper \<Rightarrow> nat \<Rightarrow> launch_args \<Rightarrow> string \<Rightarrow> state \<Rightarrow> state" where
  "launched e w this a root st =
     st\<lparr>projectRootPath := JStr root,
        servers := servers st @
          [\<lparr>listenerThis = this, listenPort = Some (debugServerListeningPort a), errorListener = True,
            pendingError = (case listen e (debugServerListeningPort a) of BindFails n m \<Rightarrow> Some (n, m) | _ \<Rightarrow> None)\<rparr>],
        trace := trace st @
          [ReassignTelemetry (appName w) (version w) root, CreateServer this,
           Listen (debugServerListeningPort a), OnError]\<rparr>"

text \<open>The launch arguments after \<open>args.args\<close> has been overwritten.\<close>

definition sanitized :: "env \<Rightarrow> launch_args \<Rightarrow> launch_args" where
  "sanitized e a = a\<lparr>args := JArr (downstream_args e a)\<rparr>"

text \<open>The value of \<open>path.resolve(args.program, "../..")\<close> when it returns.\<close>

definition project_root :: "env \<Rightarrow> launch_args \<Rightarrow> string" where
  "project_root e a = (case path_resolve (cwd e) [program a, JStr ''../..''] of Inr root \<Rightarrow> root | Inl _ \<Rightarrow> [])"

text \<open>\<open>Number.MAX_SAFE_INTEGER\<close>: up to it, every integer is a number of its own.\<close>

definition MAX_SAFE_INTEGER :: nat where
  "MAX_SAFE_INTEGER = 9007199254740991"


text \<open>The calls of a native disconnect handler among the effects.\<close>

fun is_disconnect_call :: "effect \<Rightarrow> bool" where
  "is_disconnect_call (CallDisconnect f this response a) = True"
| "is_disconnect_call _ = False"

text \<open>The three outcomes of stopping the log monitor: the promise is fulfilled, it is
  rejected, or the construction of the client or the call throws. A thrown value is an
  \<open>Error\<close> or any value but \<open>undefined\<close> and \<open>null\<close>, whose \<open>message\<close> cannot be read.\<close>

fun settled_or_thrown :: "aux_outcome \<Rightarrow> bool" where
  "settled_or_thrown (ConstructionThrows exception) = (\<not> isNullOrUndefined exception)"
| "settled_or_thrown (CallThrows exception) = (\<not> isNullOrUndefined exception)"
| "settled_or_thrown PromiseResolves = True"
| "settled_or_thrown (PromiseRejects reason) = True"
| "settled_or_thrown PromisePending = False"

text \<open>A path segment that normalization keeps: not empty, neither \<open>.\<close> nor \<open>..\<close>, and
  without a slash. An absolute path is a slash and its segments joined by slashes.\<close>

definition clean_segment :: "string \<Rightarrow> bool" where
  "clean_segment s = (s \<noteq> [] \<and> s \<noteq> ''.'' \<and> s \<noteq> ''..'' \<and> CHR ''/'' \<notin> set s)"

definition absolute_path :: "string list \<Rightarrow> string" where
  "absolute_path segs = CHR ''/'' # join_strings ''/'' segs"

text \<open>A decimal digit, and the number that a run of decimal digits denotes.\<close>

definition is_digit :: "char \<Rightarrow> bool" where
  "is_digit c = (c \<in> set ''0123456789'')"

definition decimal :: "string \<Rightarrow> nat" where
  "decimal ds = foldl (\<lambda>v c. v * 10 + (of_char c - 48)) 0 ds"

subsection \<open>A concrete environment, wrapper, state and launch arguments\<close>

definition env0 :: env where
  "env0 = \<lparr>cwd = ''/home/user'', DEFAULT_IOS_PROJECT_RELATIVE_PATH = ''ios'',
     listen = (\<lambda>port. if port = JNum 9090 then BindFails ''Error'' ''listen EADDRINUSE :::9090'' else Listening),
     nativeLaunch = (\<lambda>f this request a. Normal),
     nativeDisconnect = (\<lambda>f this response a. Normal),
     remoteExtension = (\<lambda>root. if root = JUndefined then ConstructionThrows (JError ''TypeError'' ''Path must be a string'')
                                else PromiseRejects (JStr ''ECONNRESET''))\<rparr>"

definition w0 :: NodeDebugWrapper where
  "w0 = \<lparr>appName = ''react-native'', version = ''0.1.0''\<rparr>"

definition st0 :: state where
  "st0 = \<lparr>projectRootPath = JUndefined, sourceMaps = (\<lambda>s. None), servers = [], trace = []\<rparr>"

definition args1 :: launch_args where
  "args1 = \<lparr>program = JStr ''/proj/.vscode/launchReactNative.js'', platform = JStr ''android'',
     internalDebuggerPort = JStr ''8081'', iosRelativeProjectPath = JStr [], target = JStr ''device'',
     logCatArguments = JArr [JStr ''-b'', JStr ''main'', JStr ''-v''], args = JArr [JStr ''--inspect''],
     otherFields = [(''sourceMaps'', JBool True)]\<rparr>"

definition args2 :: launch_args where
  "args2 = \<lparr>program = JStr ''/proj/ios/App.xcodeproj/..'', platform = JStr ''ios'',
     internalDebuggerPort = JUndefined, iosRelativeProjectPath = JUndefined, target = JUndefined,
     logCatArguments = JUndefined, args = JUndefined, otherFields = []\<rparr>"

definition st1 :: state where
  "st1 = \<lparr>projectRootPath = JStr ''/proj'', sourceMaps = (\<lambda>s. None), servers = [], trace = []\<rparr>"

definition proto0 :: prototype where
  "proto0 = \<lparr>launchRequest = Some (NativeLaunch 0), attachRequest_slot = Some (NativeAttach 1),
              disconnectRequest = Some (NativeDisconnect 2)\<rparr>"

definition proto_empty :: prototype where
  "proto_empty = \<lparr>launchRequest = None, attachRequest_slot = None, disconnectRequest = None\<rparr>"

text \<open>An environment where stopping the log monitor throws \<open>undefined\<close> (from the
  construction, when there is no project root) or \<open>null\<close> (from the call).\<close>

definition env_null :: env where
  "env_null = env0\<lparr>remoteExtension :=
     (\<lambda>root. if root = JUndefined then ConstructionThrows JUndefined else CallThrows JNull)\<rparr>"

text \<open>A state where the sessions 1 and 2 have cached source maps.\<close>

definition st2 :: state where
  "st2 = \<lparr>projectRootPath = JStr ''/proj'',
          sourceMaps = (\<lambda>s. Some \<lparr>allSourceMaps = [(''index.bundle'', JStr ''index.map'')],
                                  generatedToSourceMaps = [(''index.bundle'', JStr ''index.map'')],
                                  sourceToGeneratedMaps = [(''App.js'', JStr ''index.bundle'')]\<rparr>),
          servers = [], trace = []\<rparr>"

section \<open>Auxiliary facts\<close>

lemma path_resolve_string:
  "\<exists>root. path_resolve c [JStr p, JStr ''../..''] = Inr root"
  by (auto simp: path_resolve_def split: sum.splits prod.splits)

lemma project_root_resolve:
  "program a = JStr p \<Longrightarrow> path_resolve (cwd e) [program a, JStr ''../..''] = Inr (project_root e a)"
  using path_resolve_string [of "cwd e" p] by (auto simp: project_root_def)

lemma wrappedLaunchRequest_delegates:
  assumes "program a = JStr p"
    and "\<forall>x. listen e (debugServerListeningPort a) \<noteq> ListenThrows x"
  shows "wrappedLaunchRequest e w originalRequest this request a st =
           attachRequest originalRequest this request (sanitized e a) (launched e w this a (project_root e a) st)"
proof -
  have r: "path_resolve (cwd e) [program a, JStr ''../..''] = Inr (project_root e a)"
    using assms(1) by (rule project_root_resolve)
  show ?thesis
    using assms(2)
    by (cases "listen e (debugServerListeningPort a)")
       (simp_all add: wrappedLaunchRequest_def r launched_def sanitized_def log_effects_def Let_def)
qed

lemma invoke_wrapped_native_launch:
  assumes "program a = JStr p"
    and "\<forall>x. listen e (debugServerListeningPort a) \<noteq> ListenThrows x"
  shows "invoke_launch e w (WrappedLaunch (Some (NativeLaunch f))) this request a st =
           (nativeLaunch e f this request (sanitized e a), sanitized e a,
            log_effects [CallLaunch f this request (sanitized e a)] (launched e w this a (project_root e a) st))"
  by (simp add: wrappedLaunchRequest_delegates [OF assms] attachRequest_def)

lemma length_downstream_args:
  "length (downstream_args e a) = (if isNullOrUndefined (logCatArguments a) then 4 else 5)"
  by (simp add: downstream_args_def)

lemma digit_of_digit_char: "d < 10 \<Longrightarrow> digit_of (digit_char d) = Some d"
proof -
  assume "d < 10"
  then have "d \<in> {0, 1, 2, 3, 4, 5, 6, 7, 8, 9}" by auto
  then show ?thesis by (auto simp: digit_of_def digit_char_def)
qed

lemma digit_not_blank:
  "digit_of c = Some d \<Longrightarrow> \<not> is_whitespace c \<and> c \<noteq> CHR ''+'' \<and> c \<noteq> CHR ''-''"
  by (auto simp: digit_of_def is_whitespace_def split: if_splits)

lemma digits_value_Some:
  "\<forall>c \<in> set ds. digit_of c \<noteq> None \<Longrightarrow>
     digits_value (Some v) ds = Some (foldl (\<lambda>v c. v * 10 + the (digit_of c)) v ds)"
  by (induction ds arbitrary: v) auto

lemma digits_value_None:
  "ds \<noteq> [] \<Longrightarrow> \<forall>c \<in> set ds. digit_of c \<noteq> None \<Longrightarrow>
     digits_value None ds = Some (foldl (\<lambda>v c. v * 10 + the (digit_of c)) 0 ds)"
  by (cases ds) (auto simp: digits_value_Some)

lemma string_of_nat_digits:
  "string_of_nat n \<noteq> [] \<and> (\<forall>c \<in> set (string_of_nat n). digit_of c \<noteq> None) \<and>
   foldl (\<lambda>v c. v * 10 + the (digit_of c)) 0 (string_of_nat n) = n"
proof (induction n rule: string_of_nat.induct)
  case (1 n)
  show ?case
  proof (cases "n < 10")
    case True
    then show ?thesis
      by (simp add: string_of_nat.simps [of n] digit_of_digit_char)
  next
    case False
    then have "n mod 10 < 10" by simp
    with False "1" show ?thesis
      by (simp add: string_of_nat.simps [of n] digit_of_digit_char)
  qed
qed

lemma parseInt10_string_of_nat: "parseInt10_string (string_of_nat n) = Some (int n)"
proof -
  obtain c cs where s: "string_of_nat n = c # cs"
    using string_of_nat_digits [of n] by (cases "string_of_nat n") auto
  then obtain d where d: "digit_of c = Some d"
    using string_of_nat_digits [of n] by auto
  have b: "\<not> is_whitespace c" "c \<noteq> CHR ''+''" "c \<noteq> CHR ''-''"
    using digit_not_blank [OF d] by auto
  have "digits_value None (c # cs) = Some n"
    using digits_value_None [of "string_of_nat n"] string_of_nat_digits [of n] s by simp
  then show ?thesis
    using b by (simp add: parseInt10_string_def s)
qed





lemma parse_8081: "parseInt10 (JStr ''8081'') = JNum 8081"
  by (simp add: parseInt10_def parseInt10_string_def is_whitespace_def digit_of_def)

lemma toString_8081: "number_toString 8081 = ''8081''"
  by (simp add: number_toString_def string_of_nat.simps digit_char_def)

lemma toString_9090: "number_toString 9090 = ''9090''"
  by (simp add: number_toString_def string_of_nat.simps digit_char_def)

lemma args1_port: "debugServerListeningPort args1 = JNum 8081"
  by (simp add: debugServerListeningPort_def args1_def parse_8081 js_or_def)

lemma args1_program: "program args1 = JStr ''/proj/.vscode/launchReactNative.js''"
  by (simp add: args1_def)

lemma args1_listen: "\<forall>x. listen env0 (debugServerListeningPort args1) \<noteq> ListenThrows x"
  by (simp add: args1_port env0_def)

lemma args1_vector:
  "downstream_args env0 args1 =
     [JStr ''android'', JStr ''8081'', JStr [], JStr ''device'', JStr ''-b main -v'']"
  by (simp add: downstream_args_def args1_port toString_8081)
     (simp add: args1_def js_or_def parseLogCatArguments_def Array_join_def)

lemma parseInt10_positive:
  assumes "0 < n" and "v = JStr (string_of_nat n) \<or> v = JNum (int n)"
  shows "js_or (parseInt10 v) (JNum 9090) = JNum (int n)"
proof -
  have "ToString v = string_of_nat n"
    using assms by (auto simp: number_toString_def)
  then show ?thesis
    using assms(1) by (simp add: parseInt10_def parseInt10_string_of_nat js_or_def)
qed

lemma parseInt10_absent:
  "isNullOrUndefined v \<Longrightarrow> parseInt10 v = JNaN"
  by (cases v) (simp_all add: parseInt10_def parseInt10_string_def is_whitespace_def digit_of_def)

section \<open>The argument vector of the launch\<close>

text \<open>
  C1. For launch arguments whose \<open>program\<close> is a string, in an environment where
  \<open>listen\<close> does not throw, the wrapped launch request returns with \<open>args.args\<close>
  overwritten by the downstream vector and hands exactly these arguments to the original
  request. The vector has length 4 or 5; its first four elements are, in this order, the
  platform, the port the server listens on as a string, \<open>iosRelativeProjectPath\<close> or
  the default constant, and the target or \<open>"simulator"\<close>; a fifth element, when there is
  one, is the parsed log arguments. The vector depends on no other field: two argument
  records that agree on these five fields give the same vector, whatever their
  \<open>program\<close>, their former \<open>args\<close> and their other fields are.
\<close>

theorem launch_downstream_vector:
  assumes "program a = JStr p"
    and "\<forall>x. listen e (debugServerListeningPort a) \<noteq> ListenThrows x"
  shows "(\<exists>c st'. invoke_launch e w (WrappedLaunch (Some (NativeLaunch f))) this request a st =
                     (c, a\<lparr>args := JArr (downstream_args e a)\<rparr>, st')
                 \<and> last (trace st') = CallLaunch f this request (a\<lparr>args := JArr (downstream_args e a)\<rparr>))
       \<and> (length (downstream_args e a) = 4 \<or> length (downstream_args e a) = 5)
       \<and> take 4 (downstream_args e a) =
            [platform a,
             JStr (ToString (debugServerListeningPort a)),
             if isNullOrUndefined (iosRelativeProjectPath a)
               then JStr (DEFAULT_IOS_PROJECT_RELATIVE_PATH e) else iosRelativeProjectPath a,
             if truthy (target a) then target a else JStr ''simulator'']
       \<and> drop 4 (downstream_args e a) =
            (if isNullOrUndefined (logCatArguments a) then []
             else [parseLogCatArguments (logCatArguments a)])
       \<and> (\<forall>b. platform b = platform a \<and> internalDebuggerPort b = internalDebuggerPort a
               \<and> iosRelativeProjectPath b = iosRelativeProjectPath a \<and> target b = target a
               \<and> logCatArguments b = logCatArguments a
             \<longrightarrow> downstream_args e b = downstream_args e a)"
proof -
  have 1: "\<exists>c st'. invoke_launch e w (WrappedLaunch (Some (NativeLaunch f))) this request a st =
                     (c, a\<lparr>args := JArr (downstream_args e a)\<rparr>, st')
                 \<and> last (trace st') = CallLaunch f this request (a\<lparr>args := JArr (downstream_args e a)\<rparr>)"
    by (subst invoke_wrapped_native_launch [OF assms]) (simp add: sanitized_def log_effects_def)
  have 2: "length (downstream_args e a) = 4 \<or> length (downstream_args e a) = 5"
    by (simp add: length_downstream_args)
  have 3: "take 4 (downstream_args e a) =
            [platform a,
             JStr (ToString (debugServerListeningPort a)),
             if isNullOrUndefined (iosRelativeProjectPath a)
               then JStr (DEFAULT_IOS_PROJECT_RELATIVE_PATH e) else iosRelativeProjectPath a,
             if truthy (target a) then target a else JStr ''simulator'']"
    by (simp add: downstream_args_def js_or_def)
  have 4: "drop 4 (downstream_args e a) =
            (if isNullOrUndefined (logCatArguments a) then []
             else [parseLogCatArguments (logCatArguments a)])"
    by (simp add: downstream_args_def)
  have 5: "\<forall>b. platform b = platform a \<and> internalDebuggerPort b = internalDebuggerPort a
               \<and> iosRelativeProjectPath b = iosRelativeProjectPath a \<and> target b = target a
               \<and> logCatArguments b = logCatArguments a
             \<longrightarrow> downstream_args e b = downstream_args e a"
    by (simp add: downstream_args_def debugServerListeningPort_def)
  from 1 2 3 4 5 show ?thesis by blast
qed

theorem launch_downstream_vector_witness:
  "args (fst (snd (invoke_launch env0 w0 (WrappedLaunch (Some (NativeLaunch 0))) 1 JNull args1 st0))) =
     JArr [JStr ''android'', JStr ''8081'', JStr [], JStr ''device'', JStr ''-b main -v'']
   \<and> downstream_args env0 (args1\<lparr>program := JStr ''/elsewhere'', args := JNull, otherFields := []\<rparr>) =
       [JStr ''android'', JStr ''8081'', JStr [], JStr ''device'', JStr ''-b main -v'']"
proof -
  note t = launch_downstream_vector [OF args1_program args1_listen, of w0 0 1 JNull st0]
  have i: "downstream_args env0 (args1\<lparr>program := JStr ''/elsewhere'', args := JNull, otherFields := []\<rparr>) =
             downstream_args env0 args1"
    using t [THEN conjunct2, THEN conjunct2, THEN conjunct2, THEN conjunct2, THEN spec,
             of "args1\<lparr>program := JStr ''/elsewhere'', args := JNull, otherFields := []\<rparr>"]
    by simp
  obtain c st' where "invoke_launch env0 w0 (WrappedLaunch (Some (NativeLaunch 0))) 1 JNull args1 st0 =
      (c, args1\<lparr>args := JArr (downstream_args env0 args1)\<rparr>, st')"
    using t [THEN conjunct1] by blast
  then show ?thesis
    using i args1_vector by simp
qed


section \<open>The port of the control server\<close>

lemma digit_of_is_digit:
  "digit_of c = (if is_digit c then Some (of_char c - 48) else None)"
  by (auto simp: digit_of_def is_digit_def)

lemma is_digit_not_blank:
  "is_digit c \<Longrightarrow> \<not> is_whitespace c \<and> c \<noteq> CHR ''+'' \<and> c \<noteq> CHR ''-''"
  by (auto simp: is_digit_def is_whitespace_def)

lemma digits_value_run:
  assumes "\<forall>c \<in> set ds. is_digit c" and "rest = [] \<or> \<not> is_digit (hd rest)"
  shows "digits_value (Some v) (ds @ rest) = Some (foldl (\<lambda>v c. v * 10 + (of_char c - 48)) v ds)"
  using assms
proof (induction ds arbitrary: v)
  case Nil
  then show ?case by (cases rest) (auto simp: digit_of_is_digit)
next
  case (Cons c cs)
  then show ?case by (simp add: digit_of_is_digit)
qed

lemma digits_value_decimal:
  assumes "ds \<noteq> []" and "\<forall>c \<in> set ds. is_digit c" and "rest = [] \<or> \<not> is_digit (hd rest)"
  shows "digits_value None (ds @ rest) = Some (decimal ds)"
proof -
  obtain c cs where ds: "ds = c # cs" using assms(1) by (cases ds) auto
  have "\<forall>c \<in> set cs. is_digit c" and "is_digit c" using assms(2) ds by auto
  then show ?thesis
    using digits_value_run [of cs rest "of_char c - 48"] assms(3)
    by (simp add: ds decimal_def digit_of_is_digit)
qed

lemma digits_value_no_digit:
  "rest = [] \<or> \<not> is_digit (hd rest) \<Longrightarrow> digits_value None rest = None"
  by (cases rest) (auto simp: digit_of_is_digit)

lemma dropWhile_blank:
  assumes "\<forall>c \<in> set ws. is_whitespace c" and "t = [] \<or> \<not> is_whitespace (hd t)"
  shows "dropWhile is_whitespace (ws @ t) = t"
proof -
  have "dropWhile is_whitespace t = t"
    using assms(2) by (cases t) auto
  then show ?thesis
    using assms(1) by (simp add: dropWhile_append2)
qed

lemma sign_not_blank: "\<not> is_whitespace CHR ''+''" "\<not> is_whitespace CHR ''-''"
  by (simp_all add: is_whitespace_def)

lemma parseInt10_string_numeral:
  assumes "\<forall>c \<in> set ws. is_whitespace c" and "sg \<in> {[], ''+'', ''-''}"
    and "ds \<noteq> []" and "\<forall>c \<in> set ds. is_digit c" and "rest = [] \<or> \<not> is_digit (hd rest)"
  shows "parseInt10_string (ws @ sg @ ds @ rest) =
           Some (if sg = ''-'' then - int (decimal ds) else int (decimal ds))"
proof -
  obtain c cs where ds: "ds = c # cs" using assms(3) by (cases ds) auto
  then have c: "is_digit c" using assms(4) by simp
  note nb = is_digit_not_blank [OF c]
  note v = digits_value_decimal [OF assms(3,4,5)]
  from assms(2) consider "sg = []" | "sg = ''+''" | "sg = ''-''" by auto
  then show ?thesis
  proof cases
    case 1
    have "dropWhile is_whitespace (ws @ ds @ rest) = ds @ rest"
      using dropWhile_blank [OF assms(1), of "ds @ rest"] nb by (simp add: ds)
    then show ?thesis
      using v nb by (simp add: parseInt10_string_def 1 ds)
  next
    case 2
    have "dropWhile is_whitespace (ws @ ''+'' @ ds @ rest) = ''+'' @ ds @ rest"
      using dropWhile_blank [OF assms(1), of "''+'' @ ds @ rest"] sign_not_blank by simp
    then show ?thesis
      using v by (simp add: parseInt10_string_def 2)
  next
    case 3
    have "dropWhile is_whitespace (ws @ ''-'' @ ds @ rest) = ''-'' @ ds @ rest"
      using dropWhile_blank [OF assms(1), of "''-'' @ ds @ rest"] sign_not_blank by simp
    then show ?thesis
      using v by (simp add: parseInt10_string_def 3)
  qed
qed

lemma parseInt10_string_no_numeral:
  assumes "\<forall>c \<in> set ws. is_whitespace c" and "sg \<in> {[], ''+'', ''-''}"
    and "rest = [] \<or> \<not> is_digit (hd rest)"
    and "sg = [] \<longrightarrow> rest = [] \<or> (hd rest \<noteq> CHR ''+'' \<and> hd rest \<noteq> CHR ''-'' \<and> \<not> is_whitespace (hd rest))"
  shows "parseInt10_string (ws @ sg @ rest) = None"
proof -
  note v = digits_value_no_digit [OF assms(3)]
  from assms(2) consider "sg = []" | "sg = ''+''" | "sg = ''-''" by auto
  then show ?thesis
  proof cases
    case 1
    with assms(4) have r: "rest = [] \<or> (hd rest \<noteq> CHR ''+'' \<and> hd rest \<noteq> CHR ''-'' \<and> \<not> is_whitespace (hd rest))"
      by simp
    then have "dropWhile is_whitespace (ws @ rest) = rest"
      using dropWhile_blank [OF assms(1), of rest] by auto
    then show ?thesis
      using v r by (auto simp: parseInt10_string_def 1)
  next
    case 2
    have "dropWhile is_whitespace (ws @ ''+'' @ rest) = ''+'' @ rest"
      using dropWhile_blank [OF assms(1), of "''+'' @ rest"] sign_not_blank by simp
    then show ?thesis
      using v by (simp add: parseInt10_string_def 2)
  next
    case 3
    have "dropWhile is_whitespace (ws @ ''-'' @ rest) = ''-'' @ rest"
      using dropWhile_blank [OF assms(1), of "''-'' @ rest"] sign_not_blank by simp
    then show ?thesis
      using v by (simp add: parseInt10_string_def 3)
  qed
qed

text \<open>
  C5. A launch whose \<open>program\<close> is a string, where \<open>listen\<close> does not throw, listens on
  \<open>debugServerListeningPort\<close> and writes that port, as a string, into the second slot of
  the vector. The port is decided by the text of \<open>internalDebuggerPort\<close>, read as
  \<open>parseInt\<close> reads it: after leading white space and one optional sign,

  \<^item> when a run of decimal digits follows (whatever comes after the run), the port is the
    number the run denotes, negated after a minus sign, and 9090 when that number is 0: the
    argument is parseable; so \<open>8081\<close> gives 8081 and \<open>12abc\<close> gives 12;
  \<^item> when no digit follows, the port is 9090: the argument is not numeric;
  \<^item> when the argument is \<open>undefined\<close> or \<open>null\<close>, the port is 9090.

  When the argument is the decimal numeral of a positive integer (or that number), the
  second slot is that numeral again. Numbers are taken up to \<open>MAX_SAFE_INTEGER\<close>.
\<close>

theorem launch_control_port:
  assumes "program a = JStr p"
    and "\<forall>x. listen e (debugServerListeningPort a) \<noteq> ListenThrows x"
  shows "(\<exists>c a' st'. invoke_launch e w (WrappedLaunch (Some (NativeLaunch f))) this request a st = (c, a', st')
            \<and> Listen (debugServerListeningPort a) \<in> set (trace st')
            \<and> listenPort (last (servers st')) = Some (debugServerListeningPort a)
            \<and> (\<exists>v. args a' = JArr v \<and> v ! 1 = JStr (ToString (debugServerListeningPort a))))
       \<and> (\<forall>n. 0 < n \<and> n \<le> MAX_SAFE_INTEGER
               \<and> (internalDebuggerPort a = JStr (string_of_nat n) \<or> internalDebuggerPort a = JNum (int n))
             \<longrightarrow> debugServerListeningPort a = JNum (int n)
                 \<and> ToString (debugServerListeningPort a) = string_of_nat n)
       \<and> (\<forall>ws sg ds rest.
               ToString (internalDebuggerPort a) = ws @ sg @ ds @ rest
               \<and> (\<forall>c \<in> set ws. is_whitespace c) \<and> sg \<in> {[], ''+'', ''-''}
               \<and> ds \<noteq> [] \<and> (\<forall>c \<in> set ds. is_digit c) \<and> (rest = [] \<or> \<not> is_digit (hd rest))
               \<and> decimal ds \<le> MAX_SAFE_INTEGER
             \<longrightarrow> debugServerListeningPort a =
                   (if decimal ds = 0 then JNum 9090
                    else if sg = ''-'' then JNum (- int (decimal ds)) else JNum (int (decimal ds))))
       \<and> (\<forall>ws sg rest.
               ToString (internalDebuggerPort a) = ws @ sg @ rest
               \<and> (\<forall>c \<in> set ws. is_whitespace c) \<and> sg \<in> {[], ''+'', ''-''}
               \<and> (rest = [] \<or> \<not> is_digit (hd rest))
               \<and> (sg = [] \<longrightarrow> rest = [] \<or>
                     (hd rest \<noteq> CHR ''+'' \<and> hd rest \<noteq> CHR ''-'' \<and> \<not> is_whitespace (hd rest)))
             \<longrightarrow> debugServerListeningPort a = JNum 9090
                 \<and> ToString (debugServerListeningPort a) = ''9090'')
       \<and> (isNullOrUndefined (internalDebuggerPort a)
             \<longrightarrow> debugServerListeningPort a = JNum 9090
                 \<and> ToString (debugServerListeningPort a) = ''9090'')"
proof -
  have 1: "\<exists>c a' st'. invoke_launch e w (WrappedLaunch (Some (NativeLaunch f))) this request a st = (c, a', st')
            \<and> Listen (debugServerListeningPort a) \<in> set (trace st')
            \<and> listenPort (last (servers st')) = Some (debugServerListeningPort a)
            \<and> (\<exists>v. args a' = JArr v \<and> v ! 1 = JStr (ToString (debugServerListeningPort a)))"
    by (subst invoke_wrapped_native_launch [OF assms])
       (simp add: sanitized_def log_effects_def launched_def downstream_args_def)
  have 2: "debugServerListeningPort a = JNum (int n) \<and> ToString (debugServerListeningPort a) = string_of_nat n"
    if "0 < n" and "internalDebuggerPort a = JStr (string_of_nat n) \<or> internalDebuggerPort a = JNum (int n)" for n
    using parseInt10_positive [OF that] by (simp add: debugServerListeningPort_def number_toString_def)
  have 3: "debugServerListeningPort a =
             (if decimal ds = 0 then JNum 9090
              else if sg = ''-'' then JNum (- int (decimal ds)) else JNum (int (decimal ds)))"
    if "ToString (internalDebuggerPort a) = ws @ sg @ ds @ rest"
      and "\<forall>c \<in> set ws. is_whitespace c" and "sg \<in> {[], ''+'', ''-''}"
      and "ds \<noteq> []" and "\<forall>c \<in> set ds. is_digit c" and "rest = [] \<or> \<not> is_digit (hd rest)"
    for ws sg ds rest
    using parseInt10_string_numeral [OF that(2-6)]
    by (simp add: debugServerListeningPort_def parseInt10_def that(1) js_or_def)
  have 4: "debugServerListeningPort a = JNum 9090 \<and> ToString (debugServerListeningPort a) = ''9090''"
    if "ToString (internalDebuggerPort a) = ws @ sg @ rest"
      and "\<forall>c \<in> set ws. is_whitespace c" and "sg \<in> {[], ''+'', ''-''}"
      and "rest = [] \<or> \<not> is_digit (hd rest)"
      and "sg = [] \<longrightarrow> rest = [] \<or>
             (hd rest \<noteq> CHR ''+'' \<and> hd rest \<noteq> CHR ''-'' \<and> \<not> is_whitespace (hd rest))"
    for ws sg rest
    using parseInt10_string_no_numeral [OF that(2-5)]
    by (simp add: debugServerListeningPort_def parseInt10_def that(1) js_or_def toString_9090)
  have 5: "debugServerListeningPort a = JNum 9090 \<and> ToString (debugServerListeningPort a) = ''9090''"
    if "isNullOrUndefined (internalDebuggerPort a)"
    using parseInt10_absent [OF that] by (simp add: debugServerListeningPort_def js_or_def toString_9090)
  from 1 2 3 4 5 show ?thesis by blast
qed

theorem launch_control_port_witness:
  "debugServerListeningPort args1 = JNum 8081
   \<and> debugServerListeningPort args2 = JNum 9090
   \<and> debugServerListeningPort (args1\<lparr>internalDebuggerPort := JStr ''12abc''\<rparr>) = JNum 12
   \<and> debugServerListeningPort (args1\<lparr>internalDebuggerPort := JStr '' -5''\<rparr>) = JNum (- 5)
   \<and> debugServerListeningPort (args1\<lparr>internalDebuggerPort := JStr ''0''\<rparr>) = JNum 9090
   \<and> debugServerListeningPort (args1\<lparr>internalDebuggerPort := JStr ''auto''\<rparr>) = JNum 9090
   \<and> debugServerListeningPort (args1\<lparr>internalDebuggerPort := JStr ''+x1''\<rparr>) = JNum 9090
   \<and> Listen (JNum 8081) \<in> set (trace (snd (snd (invoke_launch env0 w0 (WrappedLaunch (Some (NativeLaunch 0))) 1 JNull args1 st0))))"
proof -
  have s: "string_of_nat 8081 = ''8081''"
    by (simp add: string_of_nat.simps digit_char_def)
  have h2: "program args2 = JStr ''/proj/ios/App.xcodeproj/..''"
    by (simp add: args2_def)
  have p2: "debugServerListeningPort args2 = JNum 9090"
    by (simp add: debugServerListeningPort_def args2_def parseInt10_absent js_or_def)
  have l2: "\<forall>x. listen env0 (debugServerListeningPort args2) \<noteq> ListenThrows x"
    by (simp add: p2 env0_def)
  have h: "program (args1\<lparr>internalDebuggerPort := v\<rparr>) = JStr ''/proj/.vscode/launchReactNative.js''" for v
    by (simp add: args1_def)
  have l: "\<forall>x. listen env0 (debugServerListeningPort (args1\<lparr>internalDebuggerPort := v\<rparr>)) \<noteq> ListenThrows x" for v
    by (simp add: env0_def)
  note t1 = launch_control_port [OF args1_program args1_listen, of w0 0 1 JNull st0]
  note t2 = launch_control_port [OF h2 l2, of w0 0 1 JNull st0]
  have a: "debugServerListeningPort args1 = JNum 8081"
    using t1 [THEN conjunct2, THEN conjunct1, THEN spec, of 8081]
    by (simp add: s MAX_SAFE_INTEGER_def args1_def)
  have b: "debugServerListeningPort args2 = JNum 9090"
    using t2 [THEN conjunct2, THEN conjunct2, THEN conjunct2, THEN conjunct2] by (simp add: args2_def)
  have c: "debugServerListeningPort (args1\<lparr>internalDebuggerPort := JStr ''12abc''\<rparr>) = JNum 12"
    using launch_control_port [OF h [of "JStr ''12abc''"] l [of "JStr ''12abc''"], of w0 0 1 JNull st0, THEN conjunct2, THEN conjunct2, THEN conjunct1,
            THEN spec, THEN spec, THEN spec, THEN spec, of "[]" "[]" "''12''" "''abc''"]
    by (simp add: is_digit_def decimal_def MAX_SAFE_INTEGER_def)
  have d: "debugServerListeningPort (args1\<lparr>internalDebuggerPort := JStr '' -5''\<rparr>) = JNum (- 5)"
    using launch_control_port [OF h [of "JStr '' -5''"] l [of "JStr '' -5''"], of w0 0 1 JNull st0, THEN conjunct2, THEN conjunct2, THEN conjunct1,
            THEN spec, THEN spec, THEN spec, THEN spec, of "'' ''" "''-''" "''5''" "[]"]
    by (simp add: is_digit_def is_whitespace_def decimal_def MAX_SAFE_INTEGER_def)
  have z: "debugServerListeningPort (args1\<lparr>internalDebuggerPort := JStr ''0''\<rparr>) = JNum 9090"
    using launch_control_port [OF h [of "JStr ''0''"] l [of "JStr ''0''"], of w0 0 1 JNull st0, THEN conjunct2, THEN conjunct2, THEN conjunct1,
            THEN spec, THEN spec, THEN spec, THEN spec, of "[]" "[]" "''0''" "[]"]
    by (simp add: is_digit_def decimal_def MAX_SAFE_INTEGER_def)
  have f: "debugServerListeningPort (args1\<lparr>internalDebuggerPort := JStr ''auto''\<rparr>) = JNum 9090"
    using launch_control_port [OF h [of "JStr ''auto''"] l [of "JStr ''auto''"], of w0 0 1 JNull st0, THEN conjunct2, THEN conjunct2, THEN conjunct2,
            THEN conjunct1, THEN spec, THEN spec, THEN spec, of "[]" "[]" "''auto''"]
    by (simp add: is_digit_def is_whitespace_def)
  have g: "debugServerListeningPort (args1\<lparr>internalDebuggerPort := JStr ''+x1''\<rparr>) = JNum 9090"
    using launch_control_port [OF h [of "JStr ''+x1''"] l [of "JStr ''+x1''"], of w0 0 1 JNull st0, THEN conjunct2, THEN conjunct2, THEN conjunct2,
            THEN conjunct1, THEN spec, THEN spec, THEN spec, of "[]" "''+''" "''x1''"]
    by (simp add: is_digit_def)
  have k: "Listen (JNum 8081) \<in> set (trace (snd (snd (invoke_launch env0 w0 (WrappedLaunch (Some (NativeLaunch 0))) 1 JNull args1 st0))))"
    using t1 [THEN conjunct1] a by auto
  from a b c d z f g k show ?thesis by blast
qed

section \<open>The log arguments\<close>



section \<open>The defaults of the target and of the project path\<close>





section \<open>The routes of the reinitialization server\<close>

lemma flush_source_maps_empty:
  "flush_source_maps sm =
     \<lparr>allSourceMaps = [], generatedToSourceMaps = [], sourceToGeneratedMaps = []\<rparr>"
  by (cases sm) (simp add: flush_source_maps_def)

text \<open>
  C4. The server that a launch on session \<open>this\<close> creates has that session as the \<open>this\<close>
  of its request listener. A request whose \<open>url\<close> is exactly \<open>/refreshBreakpoints\<close> is
  answered with status 200: when the session has source maps, its three caches are empty
  afterwards (a session without source maps still has none, and the source maps of the
  other sessions are as before), and an \<open>InitializedEvent\<close> is sent on the session. A
  request with any other \<open>url\<close> is answered with status 404, and the state is as before: no
  event is sent and no cache is touched.
\<close>

theorem refresh_breakpoints_route:
  assumes "program a = JStr p"
    and "\<forall>x. listen e (debugServerListeningPort a) \<noteq> ListenThrows x"
  shows "\<exists>c a' st' srv.
           invoke_launch e w (WrappedLaunch (Some (NativeLaunch f))) this request a st = (c, a', st')
         \<and> servers st' = servers st @ [srv]
         \<and> listenerThis srv = this
         \<and> (\<forall>s. requestListener srv ''/refreshBreakpoints'' s =
                  (\<lparr>statusCode = 200, ended = True\<rparr>,
                   s\<lparr>sourceMaps := (sourceMaps s)
                        (this := (case sourceMaps s this of
                                    None \<Rightarrow> None
                                  | Some sm \<Rightarrow> Some \<lparr>allSourceMaps = [], generatedToSourceMaps = [],
                                                      sourceToGeneratedMaps = []\<rparr>)),
                     trace := trace s @ [SendEvent this InitializedEvent]\<rparr>))
         \<and> (\<forall>url s. url \<noteq> ''/refreshBreakpoints''
                  \<longrightarrow> requestListener srv url s = (\<lparr>statusCode = 404, ended = True\<rparr>, s))"
  by (subst invoke_wrapped_native_launch [OF assms])
     (simp add: log_effects_def launched_def requestListener_def map_option_case flush_source_maps_empty
        cong: option.case_cong)

theorem refresh_breakpoints_route_witness:
  "fst (requestListener
         (last (servers (snd (snd (invoke_launch env0 w0 (WrappedLaunch (Some (NativeLaunch 0))) 1 JNull args1 st0)))))
         ''/refreshBreakpoints'' st2) = \<lparr>statusCode = 200, ended = True\<rparr>
   \<and> trace (snd (requestListener
         (last (servers (snd (snd (invoke_launch env0 w0 (WrappedLaunch (Some (NativeLaunch 0))) 1 JNull args1 st0)))))
         ''/refreshBreakpoints'' st2)) = [SendEvent 1 InitializedEvent]
   \<and> sourceMaps (snd (requestListener
         (last (servers (snd (snd (invoke_launch env0 w0 (WrappedLaunch (Some (NativeLaunch 0))) 1 JNull args1 st0)))))
         ''/refreshBreakpoints'' st2)) 1 =
       Some \<lparr>allSourceMaps = [], generatedToSourceMaps = [], sourceToGeneratedMaps = []\<rparr>
   \<and> sourceMaps (snd (requestListener
         (last (servers (snd (snd (invoke_launch env0 w0 (WrappedLaunch (Some (NativeLaunch 0))) 1 JNull args1 st0)))))
         ''/refreshBreakpoints'' st2)) 2 =
       Some \<lparr>allSourceMaps = [(''index.bundle'', JStr ''index.map'')],
             generatedToSourceMaps = [(''index.bundle'', JStr ''index.map'')],
             sourceToGeneratedMaps = [(''App.js'', JStr ''index.bundle'')]\<rparr>
   \<and> requestListener
         (last (servers (snd (snd (invoke_launch env0 w0 (WrappedLaunch (Some (NativeLaunch 0))) 1 JNull args1 st0)))))
         ''/refreshBreakpoints?x'' st2 = (\<lparr>statusCode = 404, ended = True\<rparr>, st2)"
proof -
  obtain c a' st' srv where
    l: "invoke_launch env0 w0 (WrappedLaunch (Some (NativeLaunch 0))) 1 JNull args1 st0 = (c, a', st')"
    and s: "servers st' = servers st0 @ [srv]"
    and ok: "\<forall>s. requestListener srv ''/refreshBreakpoints'' s =
                  (\<lparr>statusCode = 200, ended = True\<rparr>,
                   s\<lparr>sourceMaps := (sourceMaps s)
                        (1 := (case sourceMaps s 1 of
                                 None \<Rightarrow> None
                               | Some sm \<Rightarrow> Some \<lparr>allSourceMaps = [], generatedToSourceMaps = [],
                                                   sourceToGeneratedMaps = []\<rparr>)),
                     trace := trace s @ [SendEvent 1 InitializedEvent]\<rparr>)"
    and other: "\<forall>url s. url \<noteq> ''/refreshBreakpoints''
                  \<longrightarrow> requestListener srv url s = (\<lparr>statusCode = 404, ended = True\<rparr>, s)"
    using refresh_breakpoints_route [OF args1_program args1_listen, of w0 0 1 JNull st0] by blast
  have srv: "last (servers (snd (snd (invoke_launch env0 w0 (WrappedLaunch (Some (NativeLaunch 0))) 1 JNull args1 st0)))) = srv"
    unfolding l by (simp add: s)
  have o: "requestListener srv ''/refreshBreakpoints?x'' st2 = (\<lparr>statusCode = 404, ended = True\<rparr>, st2)"
    using other [THEN spec, THEN spec, of "''/refreshBreakpoints?x''" st2] by simp
  show ?thesis
    unfolding srv ok [THEN spec, of st2] o by (simp add: st2_def)
qed

section \<open>A port that is already taken\<close>

text \<open>
  C8. When the bind fails (\<open>listen\<close> returns and the \<open>error\<close> event follows), the wrapped
  launch request throws nothing of its own: it completes as the original request does,
  called with the sanitized arguments, after the telemetry, the server, \<open>listen\<close> and the
  \<open>error\<close> listener. The failure is pending on the server, which has its listener by
  then; delivering it throws nothing and adds the telemetry event
  \<open>reinitializeServerError\<close> and two \<open>OutputEvent\<close>s on the session, nothing else.
\<close>

theorem bind_failure_contained:
  assumes "program a = JStr p"
    and "listen e (debugServerListeningPort a) = BindFails n m"
  shows "\<exists>st' srv.
           invoke_launch e w (WrappedLaunch (Some (NativeLaunch f))) this request a st =
             (nativeLaunch e f this request (a\<lparr>args := JArr (downstream_args e a)\<rparr>),
              a\<lparr>args := JArr (downstream_args e a)\<rparr>, st')
         \<and> trace st' = trace st @
             [ReassignTelemetry (appName w) (version w) (project_root e a), CreateServer this,
              Listen (debugServerListeningPort a), OnError,
              CallLaunch f this request (a\<lparr>args := JArr (downstream_args e a)\<rparr>)]
         \<and> servers st' = servers st @ [srv]
         \<and> pendingError srv = Some (n, m)
         \<and> (\<forall>s. deliver_error srv s =
               (Normal,
                s\<lparr>trace := trace s @
                  [SendSimpleEvent ''reinitializeServerError'',
                   SendEvent this (OutputEvent (''Error in debug adapter server: '' @ error_toString n m) (Some ''stderr'')),
                   SendEvent this (OutputEvent ''Breakpoints may not update. Consider restarting and specifying a different 'internalDebuggerPort' in launch.json'' None)]\<rparr>))"
proof -
  have nt: "\<forall>x. listen e (debugServerListeningPort a) \<noteq> ListenThrows x"
    using assms(2) by simp
  show ?thesis
    by (subst invoke_wrapped_native_launch [OF assms(1) nt])
       (simp add: log_effects_def launched_def sanitized_def deliver_error_def errorHandler_def assms(2))
qed

theorem bind_failure_contained_witness:
  "fst (invoke_launch env0 w0 (WrappedLaunch (Some (NativeLaunch 0))) 1 JNull args2 st0) = Normal
   \<and> args (fst (snd (invoke_launch env0 w0 (WrappedLaunch (Some (NativeLaunch 0))) 1 JNull args2 st0))) =
       JArr [JStr ''ios'', JStr ''9090'', JStr ''ios'', JStr ''simulator'']
   \<and> fst (deliver_error
        (last (servers (snd (snd (invoke_launch env0 w0 (WrappedLaunch (Some (NativeLaunch 0))) 1 JNull args2 st0)))))
        st0) = Normal"
proof -
  have h: "program args2 = JStr ''/proj/ios/App.xcodeproj/..''"
    by (simp add: args2_def)
  have p: "debugServerListeningPort args2 = JNum 9090"
    by (simp add: debugServerListeningPort_def args2_def parseInt10_absent js_or_def)
  have b: "listen env0 (debugServerListeningPort args2) = BindFails ''Error'' ''listen EADDRINUSE :::9090''"
    by (simp add: p env0_def)
  have v: "downstream_args env0 args2 = [JStr ''ios'', JStr ''9090'', JStr ''ios'', JStr ''simulator'']"
    by (simp add: downstream_args_def p toString_9090) (simp add: args2_def env0_def js_or_def)
  have n: "nativeLaunch env0 f this request x = Normal" for f this request x
    by (simp add: env0_def)
  obtain st' srv where
    l: "invoke_launch env0 w0 (WrappedLaunch (Some (NativeLaunch 0))) 1 JNull args2 st0 =
             (nativeLaunch env0 0 1 JNull (args2\<lparr>args := JArr (downstream_args env0 args2)\<rparr>),
              args2\<lparr>args := JArr (downstream_args env0 args2)\<rparr>, st')"
    and s: "servers st' = servers st0 @ [srv]"
    and d: "\<forall>s. fst (deliver_error srv s) = Normal"
    using bind_failure_contained [OF h b, of w0 0 1 JNull st0] by auto
  show ?thesis
    unfolding l using d by (simp add: s n v)
qed

section \<open>The original disconnect request is called once\<close>

lemma message_or_value_defined:
  "\<not> isNullOrUndefined x \<Longrightarrow> \<exists>t. message_or_value x = Inr t"
  by (cases x) (simp_all add: message_or_value_def)

lemma calls_done_rejected:
  "filter is_disconnect_call (trace (done_rejected reason st)) = filter is_disconnect_call (trace st)"
  by (simp add: done_rejected_def log_effects_def split: sum.splits)

lemma calls_native:
  "filter is_disconnect_call
     (trace (snd (call_original (Some (invoke_disconnect e w (NativeDisconnect f))) this response a st))) =
   filter is_disconnect_call (trace st) @ [CallDisconnect f this response a]"
  by (simp add: call_original_def log_effects_def)

lemma calls_catch_block:
  assumes "\<not> isNullOrUndefined x"
  shows "filter is_disconnect_call
           (trace (snd (catch_block (Some (invoke_disconnect e w (NativeDisconnect f))) this response a x st))) =
         filter is_disconnect_call (trace st) @ [CallDisconnect f this response a]"
proof -
  obtain t where "message_or_value x = Inr t"
    using message_or_value_defined [OF assms] by blast
  then show ?thesis
    by (simp add: catch_block_def calls_native log_effects_def del: invoke_disconnect.simps)
qed

lemma calls_settle:
  "filter is_disconnect_call
     (trace (settle (Some (invoke_disconnect e w (NativeDisconnect f))) this response a rejection st)) =
   filter is_disconnect_call (trace st) @ [CallDisconnect f this response a]"
proof -
  obtain c st' where r: "call_original (Some (invoke_disconnect e w (NativeDisconnect f))) this response a st = (c, st')"
    by (cases "call_original (Some (invoke_disconnect e w (NativeDisconnect f))) this response a st")
  have "filter is_disconnect_call (trace st') =
          filter is_disconnect_call (trace st) @ [CallDisconnect f this response a]"
    using calls_native [of e w f this response a st] unfolding r by simp
  then show ?thesis
    unfolding settle_def r by (cases c; cases rejection) (simp_all add: calls_done_rejected)
qed

text \<open>
  When the promise of \<open>stopMonitoringLogcat()\<close> is fulfilled or rejected, and when the
  construction of the client or the call throws an \<open>Error\<close> or any value whose \<open>message\<close>
  can be read, the wrapped disconnect request calls the original disconnect request
  exactly once, with the session it came to as receiver and with the response and the
  arguments it was given.
\<close>

theorem disconnect_calls_original_once:
  assumes "settled_or_thrown (remoteExtension e (projectRootPath st))"
  shows "filter is_disconnect_call
           (trace (snd (invoke_disconnect e w (WrappedDisconnect (Some (NativeDisconnect f))) this response a st))) =
         filter is_disconnect_call (trace st) @ [CallDisconnect f this response a]"
proof (cases "remoteExtension e (projectRootPath st)")
  case (ConstructionThrows x)
  with assms have "\<not> isNullOrUndefined x" by simp
  then show ?thesis
    using ConstructionThrows
    by (simp add: wrappedDisconnectRequest_def calls_catch_block log_effects_def del: invoke_disconnect.simps(1))
next
  case (CallThrows x)
  with assms have "\<not> isNullOrUndefined x" by simp
  then show ?thesis
    using CallThrows
    by (simp add: wrappedDisconnectRequest_def calls_catch_block log_effects_def del: invoke_disconnect.simps(1))
next
  case PromiseResolves
  then show ?thesis
    by (simp add: wrappedDisconnectRequest_def calls_settle log_effects_def del: invoke_disconnect.simps(1))
next
  case (PromiseRejects reason)
  then show ?thesis
    by (simp add: wrappedDisconnectRequest_def calls_settle log_effects_def del: invoke_disconnect.simps(1))
next
  case PromisePending
  with assms show ?thesis by simp
qed

theorem disconnect_calls_original_once_witness:
  "filter is_disconnect_call
     (trace (snd (invoke_disconnect env0 w0 (WrappedDisconnect (Some (NativeDisconnect 2))) 1 JNull (JBool True) st0))) =
     [CallDisconnect 2 1 JNull (JBool True)]
   \<and> filter is_disconnect_call
     (trace (snd (invoke_disconnect env0 w0 (WrappedDisconnect (Some (NativeDisconnect 2))) 1 JNull (JBool True) st1))) =
     [CallDisconnect 2 1 JNull (JBool True)]"
proof -
  have h0: "settled_or_thrown (remoteExtension env0 (projectRootPath st0))"
    by (simp add: env0_def st0_def)
  have h1: "settled_or_thrown (remoteExtension env0 (projectRootPath st1))"
    by (simp add: env0_def st1_def)
  have t0: "trace st0 = []" by (simp add: st0_def)
  have t1: "trace st1 = []" by (simp add: st1_def)
  show ?thesis
    unfolding disconnect_calls_original_once [OF h0] disconnect_calls_original_once [OF h1]
    by (simp add: t0 t1)
qed

text \<open>
  C2. The original disconnect request is to be called exactly once in all three outcomes.
  The wrapped request misses one case of the third: when the construction of the client or
  the call throws \<open>undefined\<close> or \<open>null\<close>, the \<open>catch\<close> block reads \<open>exception.message\<close>
  for its warning before it calls the original request; that read raises a \<open>TypeError\<close>,
  which leaves the wrapped request, and the original request is not called at all. (On a
  rejected promise the original request is called first and the warning is made after it.)
\<close>

theorem disconnect_thrown_null_skips_original:
  "invoke_disconnect env_null w0 (WrappedDisconnect (Some (NativeDisconnect 2))) 1 JNull (JBool True) st0 =
     (Throw (JError ''TypeError'' ''Cannot read property 'message' of undefined''),
      st0\<lparr>trace := [AtProjectRootPath JUndefined]\<rparr>)
   \<and> invoke_disconnect env_null w0 (WrappedDisconnect (Some (NativeDisconnect 2))) 1 JNull (JBool True) st1 =
     (Throw (JError ''TypeError'' ''Cannot read property 'message' of null''),
      st1\<lparr>trace := [AtProjectRootPath (JStr ''/proj''), StopMonitoringLogcat]\<rparr>)
   \<and> filter is_disconnect_call
       (trace (snd (invoke_disconnect env_null w0 (WrappedDisconnect (Some (NativeDisconnect 2))) 1 JNull (JBool True) st0))) = []
   \<and> filter is_disconnect_call
       (trace (snd (invoke_disconnect env_null w0 (WrappedDisconnect (Some (NativeDisconnect 2))) 1 JNull (JBool True) st1))) = []"
proof -
  have r0: "remoteExtension env_null (projectRootPath st0) = ConstructionThrows JUndefined"
    by (simp add: env_null_def st0_def)
  have r1: "remoteExtension env_null (projectRootPath st1) = CallThrows JNull"
    by (simp add: env_null_def st1_def)
  have 0: "invoke_disconnect env_null w0 (WrappedDisconnect (Some (NativeDisconnect 2))) 1 JNull (JBool True) st0 =
     (Throw (JError ''TypeError'' ''Cannot read property 'message' of undefined''),
      st0\<lparr>trace := [AtProjectRootPath JUndefined]\<rparr>)"
    by (simp add: wrappedDisconnectRequest_def r0 catch_block_def message_or_value_def log_effects_def)
       (simp add: st0_def)
  have 1: "invoke_disconnect env_null w0 (WrappedDisconnect (Some (NativeDisconnect 2))) 1 JNull (JBool True) st1 =
     (Throw (JError ''TypeError'' ''Cannot read property 'message' of null''),
      st1\<lparr>trace := [AtProjectRootPath (JStr ''/proj''), StopMonitoringLogcat]\<rparr>)"
    by (simp add: wrappedDisconnectRequest_def r1 catch_block_def message_or_value_def log_effects_def)
       (simp add: st1_def)
  show ?thesis
    unfolding 0 1 by simp
qed

section \<open>What the installation replaces\<close>

text \<open>
  C3, as amended. \<open>customizeNodeAdapterRequests\<close> replaces the launch and the disconnect
  request by closures around the handlers it finds, and leaves the attach request as it
  is: the slot holds the same function as before, so an attach request runs the adapter's
  own handler with the receiver and arguments of the call.
\<close>

theorem installation_wraps_launch_and_disconnect:
  "\<exists>q. customizeNodeAdapterRequests (Some p) = Inr q
       \<and> launchRequest q = Some (WrappedLaunch (launchRequest p))
       \<and> disconnectRequest q = Some (WrappedDisconnect (disconnectRequest p))
       \<and> attachRequest_slot q = attachRequest_slot p"
  by (simp add: customizeNodeAdapterRequests_def customizeLaunchRequest_def
        customizeDisconnectRequest_def)

text \<open>The claim as stated fails: after the installation on a prototype with its three
  native handlers, the attach slot still holds the native handler.\<close>

theorem attach_not_replaced:
  "customizeNodeAdapterRequests (Some proto0) =
     Inr \<lparr>launchRequest = Some (WrappedLaunch (Some (NativeLaunch 0))),
          attachRequest_slot = Some (NativeAttach 1),
          disconnectRequest = Some (WrappedDisconnect (Some (NativeDisconnect 2)))\<rparr>
   \<and> attachRequest_slot proto0 = Some (NativeAttach 1)"
  by (simp add: customizeNodeAdapterRequests_def customizeLaunchRequest_def
        customizeDisconnectRequest_def proto0_def)

section \<open>An original request that is missing\<close>

text \<open>
  C9, as amended. An original request that is absent from the prototype does not make the
  installation fail: the closure is installed around \<open>undefined\<close>. The absence shows when
  the wrapped request is called: the wrapped launch request stores the project root,
  starts the server and overwrites \<open>args.args\<close>, and then throws a \<open>TypeError\<close> where it
  would call the original request.
\<close>

theorem missing_original_fails_at_call:
  assumes "program a = JStr p"
    and "\<forall>x. listen e (debugServerListeningPort a) \<noteq> ListenThrows x"
  shows "(\<exists>q'. customizeNodeAdapterRequests (Some q) = Inr q'
              \<and> (launchRequest q = None \<longrightarrow> launchRequest q' = Some (WrappedLaunch None))
              \<and> (disconnectRequest q = None \<longrightarrow> disconnectRequest q' = Some (WrappedDisconnect None)))
       \<and> invoke_launch e w (WrappedLaunch None) this request a st =
           (Throw (JError ''TypeError'' ''Cannot read property 'call' of undefined''),
            a\<lparr>args := JArr (downstream_args e a)\<rparr>,
            launched e w this a (project_root e a) st)"
proof -
  have 1: "\<exists>q'. customizeNodeAdapterRequests (Some q) = Inr q'
              \<and> (launchRequest q = None \<longrightarrow> launchRequest q' = Some (WrappedLaunch None))
              \<and> (disconnectRequest q = None \<longrightarrow> disconnectRequest q' = Some (WrappedDisconnect None))"
    by (simp add: customizeNodeAdapterRequests_def customizeLaunchRequest_def
          customizeDisconnectRequest_def)
  have 2: "invoke_launch e w (WrappedLaunch None) this request a st =
           (Throw (JError ''TypeError'' ''Cannot read property 'call' of undefined''),
            a\<lparr>args := JArr (downstream_args e a)\<rparr>,
            launched e w this a (project_root e a) st)"
    by (simp add: wrappedLaunchRequest_delegates [OF assms] attachRequest_def sanitized_def)
  from 1 2 show ?thesis by blast
qed

theorem missing_original_fails_at_call_witness:
  "fst (invoke_launch env0 w0 (WrappedLaunch None) 1 JNull args1 st0) =
     Throw (JError ''TypeError'' ''Cannot read property 'call' of undefined'')
   \<and> trace (snd (snd (invoke_launch env0 w0 (WrappedLaunch None) 1 JNull args1 st0))) =
     [ReassignTelemetry ''react-native'' ''0.1.0'' ''/proj'', CreateServer 1, Listen (JNum 8081), OnError]"
proof -
  have r: "project_root env0 args1 = ''/proj''"
    by (simp add: project_root_def args1_def path_resolve_def)
  show ?thesis
    unfolding missing_original_fails_at_call [OF args1_program args1_listen, of proto_empty w0 1 JNull st0, THEN conjunct2]
    by (simp add: launched_def r args1_port) (simp add: st0_def w0_def)
qed

text \<open>The claim as stated fails: on a prototype without any of the three requests the
  installation returns, with closures around \<open>undefined\<close>.\<close>

theorem installation_succeeds_without_originals:
  "customizeNodeAdapterRequests (Some proto_empty) =
     Inr \<lparr>launchRequest = Some (WrappedLaunch None),
          attachRequest_slot = None,
          disconnectRequest = Some (WrappedDisconnect None)\<rparr>"
  by (simp add: customizeNodeAdapterRequests_def customizeLaunchRequest_def
        customizeDisconnectRequest_def proto_empty_def)

section \<open>The project root\<close>

lemma split_slash_segment:
  "CHR ''/'' \<notin> set s \<Longrightarrow> split_slash cur (s @ CHR ''/'' # rest) = (rev cur @ s) # split_slash [] rest"
  by (induction s arbitrary: cur) auto

lemma split_slash_segments:
  "\<forall>s \<in> set segs. CHR ''/'' \<notin> set s \<Longrightarrow>
     split_slash [] (concat (map (\<lambda>s. s @ ''/'') segs) @ rest) = segs @ split_slash [] rest"
  by (induction segs) (auto simp: split_slash_segment)

lemma join_slash_concat:
  "segs \<noteq> [] \<Longrightarrow> join_strings ''/'' segs @ ''/'' = concat (map (\<lambda>s. s @ ''/'') segs)"
  by (induction "''/''" segs rule: join_strings.induct) auto

lemma normalizeArray_clean:
  "\<forall>s \<in> set segs. clean_segment s \<Longrightarrow>
     normalizeArray allow res (segs @ rest) = normalizeArray allow (rev segs @ res) rest"
  by (induction segs arbitrary: res) (auto simp: clean_segment_def)

lemma normalizeArray_up_up:
  assumes "\<forall>s \<in> set res. clean_segment s"
  shows "normalizeArray False res [''..'', ''..'', []] = rev (tl (tl res))"
proof (cases res)
  case Nil
  then show ?thesis by simp
next
  case (Cons x xs)
  with assms have x: "x \<noteq> ''..''" by (auto simp: clean_segment_def)
  show ?thesis
  proof (cases xs)
    case Nil
    with Cons x show ?thesis by simp
  next
    case (Cons y ys)
    with \<open>res = x # xs\<close> assms have "y \<noteq> ''..''" by (auto simp: clean_segment_def)
    with Cons \<open>res = x # xs\<close> x show ?thesis by simp
  qed
qed

lemma split_resolved:
  assumes "\<forall>s \<in> set segs. clean_segment s"
  shows "normalizeArray False [] (split_slash [] (absolute_path segs @ ''/'' @ ''../..'' @ ''/'')) =
           butlast (butlast segs)"
proof -
  have c: "\<forall>s \<in> set segs. CHR ''/'' \<notin> set s"
    using assms by (simp add: clean_segment_def)
  have r: "\<forall>s \<in> set (rev segs). clean_segment s"
    using assms by simp
  have s: "split_slash [] (absolute_path segs @ ''/'' @ ''../..'' @ ''/'') =
             [] # segs @ [''..'', ''..'', []] \<or>
           split_slash [] (absolute_path segs @ ''/'' @ ''../..'' @ ''/'') =
             [] # [] # segs @ [''..'', ''..'', []]"
  proof (cases "segs = []")
    case True
    then show ?thesis by (simp add: absolute_path_def)
  next
    case False
    have e: "absolute_path segs @ ''/'' @ ''../..'' @ ''/'' =
            CHR ''/'' # (concat (map (\<lambda>s. s @ ''/'') segs) @ ''../../'')"
      using join_slash_concat [OF False] by (simp add: absolute_path_def)
    have "split_slash [] (CHR ''/'' # (concat (map (\<lambda>s. s @ ''/'') segs) @ ''../../'')) =
            [] # segs @ [''..'', ''..'', []]"
      using split_slash_segments [OF c, of "''../../''"] by simp
    then show ?thesis
      unfolding e by simp
  qed
  have n: "normalizeArray False [] (segs @ [''..'', ''..'', []]) = butlast (butlast segs)"
    using normalizeArray_clean [OF assms, of False "[]" "[''..'', ''..'', []]"]
      normalizeArray_up_up [OF r]
    by (simp add: butlast_rev [symmetric] rev_swap)
  from s show ?thesis
  proof
    assume "split_slash [] (absolute_path segs @ ''/'' @ ''../..'' @ ''/'') = [] # segs @ [''..'', ''..'', []]"
    then show ?thesis using n by simp
  next
    assume "split_slash [] (absolute_path segs @ ''/'' @ ''../..'' @ ''/'') = [] # [] # segs @ [''..'', ''..'', []]"
    then show ?thesis using n by simp
  qed
qed

lemma path_resolve_grandparent:
  assumes "\<forall>s \<in> set segs. clean_segment s"
  shows "path_resolve c [JStr (absolute_path segs), JStr ''../..''] = Inr (absolute_path (butlast (butlast segs)))"
proof -
  have l: "resolve_loop c [] False (rev [JStr (absolute_path segs), JStr ''../..'']) =
             Inr (absolute_path segs @ ''/'' @ ''../..'' @ ''/'', True)"
    by (simp add: absolute_path_def)
  show ?thesis
    unfolding path_resolve_def l using split_resolved [OF assms]
    by (simp add: absolute_path_def)
qed

lemma args2_port: "debugServerListeningPort args2 = JNum 9090"
  by (simp add: debugServerListeningPort_def args2_def parseInt10_absent js_or_def)

lemma args2_program: "program args2 = JStr ''/proj/ios/App.xcodeproj/..''"
  by (simp add: args2_def)

lemma args2_listen: "\<forall>x. listen env0 (debugServerListeningPort args2) \<noteq> ListenThrows x"
  by (simp add: args2_port env0_def)

lemma resolve_scenario: "path_resolve c [JStr ''/proj/ios/App.xcodeproj/..'', JStr ''../..''] = Inr ''/''"
  by (simp add: path_resolve_def)

text \<open>
  C7, as amended. The wrapped launch request stores \<open>path.resolve(args.program, "../..")\<close>
  as the project root: for an absolute path of clean segments that is the path without its
  last two segments. In the scenario (\<open>program\<close> \<open>/proj/ios/App.xcodeproj/..\<close>, platform
  \<open>ios\<close>, no port, no project path, no target, no log arguments) the vector is \<open>ios\<close>,
  \<open>9090\<close>, the default project path and \<open>simulator\<close>, and the project root is \<open>/\<close>: the
  program path normalizes to \<open>/proj/ios\<close>.
\<close>

theorem project_root_resolved:
  assumes "\<forall>x. listen e (debugServerListeningPort a) \<noteq> ListenThrows x"
  shows "(program a = JStr ''/proj/ios/App.xcodeproj/..'' \<and> platform a = JStr ''ios''
          \<and> internalDebuggerPort a = JUndefined \<and> iosRelativeProjectPath a = JUndefined
          \<and> target a = JUndefined \<and> logCatArguments a = JUndefined
          \<longrightarrow> (\<exists>c a' st'. invoke_launch e w (WrappedLaunch (Some (NativeLaunch f))) this request a st = (c, a', st')
                \<and> args a' = JArr [JStr ''ios'', JStr ''9090'', JStr (DEFAULT_IOS_PROJECT_RELATIVE_PATH e), JStr ''simulator'']
                \<and> projectRootPath st' = JStr ''/''))
       \<and> (\<forall>p root. program a = JStr p \<and> path_resolve (cwd e) [JStr p, JStr ''../..''] = Inr root
          \<longrightarrow> projectRootPath (snd (snd (invoke_launch e w (WrappedLaunch (Some (NativeLaunch f))) this request a st)))
                = JStr root)
       \<and> (\<forall>segs. program a = JStr (absolute_path segs) \<and> (\<forall>s \<in> set segs. clean_segment s)
          \<longrightarrow> projectRootPath (snd (snd (invoke_launch e w (WrappedLaunch (Some (NativeLaunch f))) this request a st)))
                = JStr (absolute_path (butlast (butlast segs))))"
proof -
  have g: "projectRootPath (snd (snd (invoke_launch e w (WrappedLaunch (Some (NativeLaunch f))) this request a st)))
                = JStr root"
    if "program a = JStr p" and "path_resolve (cwd e) [JStr p, JStr ''../..''] = Inr root" for p root
    unfolding invoke_wrapped_native_launch [OF that(1) assms]
    using that by (simp add: log_effects_def launched_def project_root_def)
  have 1: "\<exists>c a' st'. invoke_launch e w (WrappedLaunch (Some (NativeLaunch f))) this request a st = (c, a', st')
                \<and> args a' = JArr [JStr ''ios'', JStr ''9090'', JStr (DEFAULT_IOS_PROJECT_RELATIVE_PATH e), JStr ''simulator'']
                \<and> projectRootPath st' = JStr ''/''"
    if h: "program a = JStr ''/proj/ios/App.xcodeproj/..''" "platform a = JStr ''ios''"
      "internalDebuggerPort a = JUndefined" "iosRelativeProjectPath a = JUndefined"
      "target a = JUndefined" "logCatArguments a = JUndefined"
  proof -
    have port: "debugServerListeningPort a = JNum 9090"
      using h(3) by (simp add: debugServerListeningPort_def parseInt10_absent js_or_def)
    have v: "downstream_args e a =
        [JStr ''ios'', JStr ''9090'', JStr (DEFAULT_IOS_PROJECT_RELATIVE_PATH e), JStr ''simulator'']"
      using h by (simp add: downstream_args_def port toString_9090 js_or_def)
    have r: "projectRootPath (snd (snd (invoke_launch e w (WrappedLaunch (Some (NativeLaunch f))) this request a st)))
                = JStr ''/''"
      using g [OF h(1) resolve_scenario] .
    have "fst (snd (invoke_launch e w (WrappedLaunch (Some (NativeLaunch f))) this request a st)) = sanitized e a"
      unfolding invoke_wrapped_native_launch [OF h(1) assms] by simp
    then have "args (fst (snd (invoke_launch e w (WrappedLaunch (Some (NativeLaunch f))) this request a st))) =
        JArr [JStr ''ios'', JStr ''9090'', JStr (DEFAULT_IOS_PROJECT_RELATIVE_PATH e), JStr ''simulator'']"
      by (simp add: sanitized_def v)
    with r show ?thesis
      by (cases "invoke_launch e w (WrappedLaunch (Some (NativeLaunch f))) this request a st") auto
  qed
  have 3: "projectRootPath (snd (snd (invoke_launch e w (WrappedLaunch (Some (NativeLaunch f))) this request a st)))
                = JStr (absolute_path (butlast (butlast segs)))"
    if "program a = JStr (absolute_path segs)" and "\<forall>s \<in> set segs. clean_segment s" for segs
    using g [OF that(1) path_resolve_grandparent [OF that(2)]] .
  from 1 g 3 show ?thesis by blast
qed

theorem project_root_resolved_witness:
  "args (fst (snd (invoke_launch env0 w0 (WrappedLaunch (Some (NativeLaunch 0))) 1 JNull args2 st0))) =
     JArr [JStr ''ios'', JStr ''9090'', JStr ''ios'', JStr ''simulator'']
   \<and> projectRootPath (snd (snd (invoke_launch env0 w0 (WrappedLaunch (Some (NativeLaunch 0))) 1 JNull args2 st0))) = JStr ''/''
   \<and> projectRootPath (snd (snd (invoke_launch env0 w0 (WrappedLaunch (Some (NativeLaunch 0))) 1 JNull args1 st0))) = JStr ''/proj''"
proof -
  note t2 = project_root_resolved [OF args2_listen, of w0 0 1 JNull st0]
  note t1 = project_root_resolved [OF args1_listen, of w0 0 1 JNull st0]
  have d: "DEFAULT_IOS_PROJECT_RELATIVE_PATH env0 = ''ios''"
    by (simp add: env0_def)
  have a: "args (fst (snd (invoke_launch env0 w0 (WrappedLaunch (Some (NativeLaunch 0))) 1 JNull args2 st0))) =
     JArr [JStr ''ios'', JStr ''9090'', JStr ''ios'', JStr ''simulator'']
   \<and> projectRootPath (snd (snd (invoke_launch env0 w0 (WrappedLaunch (Some (NativeLaunch 0))) 1 JNull args2 st0))) = JStr ''/''"
    using t2 [THEN conjunct1] unfolding d by (auto simp: args2_def)
  have p: "program args1 = JStr (absolute_path [''proj'', ''.vscode'', ''launchReactNative.js''])"
    by (simp add: args1_def absolute_path_def)
  have c: "\<forall>s \<in> set [''proj'', ''.vscode'', ''launchReactNative.js'']. clean_segment s"
    by (simp add: clean_segment_def)
  have b: "projectRootPath (snd (snd (invoke_launch env0 w0 (WrappedLaunch (Some (NativeLaunch 0))) 1 JNull args1 st0))) = JStr ''/proj''"
    using t1 [THEN conjunct2, THEN conjunct2, THEN spec, of "[''proj'', ''.vscode'', ''launchReactNative.js'']"] p c
    by (simp add: absolute_path_def)
  from a b show ?thesis by blast
qed

text \<open>The claim as stated fails: in the scenario the project root is not \<open>/proj\<close>.\<close>

theorem scenario_root_is_not_proj:
  "projectRootPath (snd (snd (invoke_launch env0 w0 (WrappedLaunch (Some (NativeLaunch 0))) 1 JNull args2 st0)))
     \<noteq> JStr ''/proj''"
  unfolding invoke_wrapped_native_launch [OF args2_program args2_listen]
  by (simp add: log_effects_def launched_def project_root_def args2_program resolve_scenario)


end
